theory Spec2Isabelle
  imports Main "HOL-Library.Word"
begin

section \<open>JavaScript strings\<close>

text \<open>
  A JavaScript string is a sequence of UTF-16 code units. \<open>value.length\<close>,
  \<open>split("")\<close>, \<open>includes\<close>, \<open>===\<close> and the regular expressions of
  \<^verbatim>\<open>server.js\<close> (none has the \<open>u\<close> flag) work on code units; \<open>for ... of\<close> and
  \<open>new Set(value)\<close> iterate by code point, which joins a high surrogate and the low
  surrogate after it into one element. \<open>js\<close> turns a literal of the source into code units.
\<close>

type_synonym code_unit = "16 word"
type_synonym jsstring = "code_unit list"

definition js :: "string \<Rightarrow> jsstring" where
  "js s = map of_char s"

definition is_high_surrogate :: "code_unit \<Rightarrow> bool" where
  "is_high_surrogate c \<longleftrightarrow> 0xD800 \<le> c \<and> c \<le> 0xDBFF"

definition is_low_surrogate :: "code_unit \<Rightarrow> bool" where
  "is_low_surrogate c \<longleftrightarrow> 0xDC00 \<le> c \<and> c \<le> 0xDFFF"

text \<open>The string iterator: the elements \<open>for (const char of s)\<close> and \<open>new Set(s)\<close> see.\<close>

fun code_points :: "jsstring \<Rightarrow> jsstring list" where
  "code_points [] = []"
| "code_points [c] = [[c]]"
| "code_points (c # d # cs) =
     (if is_high_surrogate c \<and> is_low_surrogate d then [c, d] # code_points cs
      else [c] # code_points (d # cs))"

text \<open>\<open>s.replaceAll(" ", r)\<close> for a one-unit pattern: every occurrence is replaced.\<close>

definition replaceAll :: "code_unit \<Rightarrow> jsstring \<Rightarrow> jsstring \<Rightarrow> jsstring" where
  "replaceAll pat r s = concat (map (\<lambda>c. if c = pat then r else [c]) s)"

text \<open>
  WhiteSpace and LineTerminator of ECMAScript: what \<open>trim()\<close> strips, what \<open>\s\<close>
  matches and what \<open>parseInt\<close> skips.
\<close>

definition is_whitespace :: "code_unit \<Rightarrow> bool" where
  "is_whitespace c \<longleftrightarrow>
     c = 0x09 \<or> c = 0x0A \<or> c = 0x0B \<or> c = 0x0C \<or> c = 0x0D \<or> c = 0x20 \<or> c = 0xA0 \<or>
     c = 0x1680 \<or> (0x2000 \<le> c \<and> c \<le> 0x200A) \<or> c = 0x2028 \<or> c = 0x2029 \<or>
     c = 0x202F \<or> c = 0x205F \<or> c = 0x3000 \<or> c = 0xFEFF"

definition trim :: "jsstring \<Rightarrow> jsstring" where
  "trim s = rev (dropWhile is_whitespace (rev (dropWhile is_whitespace s)))"

text \<open>
  \<open>s.split(/\s+/)\<close>: the pieces between the maximal runs of whitespace; a run at either
  end leaves an empty piece there, and the empty string gives one empty piece.
  \<open>cur\<close> holds the piece being read, reversed.
\<close>

function split_whitespace :: "jsstring \<Rightarrow> jsstring \<Rightarrow> jsstring list" where
  "split_whitespace cur [] = [rev cur]"
| "split_whitespace cur (c # cs) =
     (if is_whitespace c then rev cur # split_whitespace [] (dropWhile is_whitespace cs)
      else split_whitespace (c # cur) cs)"
  by pat_completeness auto
termination
  by (relation "measure (\<lambda>(cur, s). length s)") (auto simp: le_imp_less_Suc length_dropWhile_le)

text \<open>\<open>s.split("")\<close> gives the code units one by one, \<open>join("")\<close> glues pieces.\<close>

definition split_units :: "jsstring \<Rightarrow> jsstring list" where
  "split_units s = map (\<lambda>c. [c]) s"

definition join :: "jsstring list \<Rightarrow> jsstring" where
  "join ps = concat ps"

fun starts_with :: "jsstring \<Rightarrow> jsstring \<Rightarrow> bool" where
  "starts_with s [] = True"
| "starts_with [] (p # ps) = False"
| "starts_with (c # cs) (p # ps) = (c = p \<and> starts_with cs ps)"

text \<open>\<open>s.includes(sub)\<close>: \<open>sub\<close> occurs in \<open>s\<close> as a run of code units.\<close>

fun includes_str :: "jsstring \<Rightarrow> jsstring \<Rightarrow> bool" where
  "includes_str [] sub = (sub = [])"
| "includes_str (c # cs) sub = (starts_with (c # cs) sub \<or> includes_str cs sub)"

section \<open>The analysis of a value (lines 108--123 of finalHandler)\<close>

text \<open>
  A \<open>Map\<close> keeps its keys in insertion order: an association list in which \<open>set\<close>
  overwrites the entry of a key that is there and appends a new key at the end.
\<close>

fun map_set :: "'k \<Rightarrow> 'v \<Rightarrow> ('k \<times> 'v) list \<Rightarrow> ('k \<times> 'v) list" where
  "map_set k v [] = [(k, v)]"
| "map_set k v ((k', v') # m) =
     (if k' = k then (k, v) # m else (k', v') # map_set k v m)"

definition map_get :: "('k \<times> 'v) list \<Rightarrow> 'k \<Rightarrow> 'v option" where
  "map_get m k = map_of m k"

text \<open>
  The loop \<open>for (const char of value.replaceAll(" ", ""))\<close> with its body
  \<open>count = charCounts.get(char) || 0; charCounts.set(char, count + 1)\<close>.
\<close>

definition count_char :: "jsstring \<Rightarrow> (jsstring \<times> nat) list \<Rightarrow> (jsstring \<times> nat) list" where
  "count_char char m =
     (let count = (case map_get m char of None \<Rightarrow> 0 | Some n \<Rightarrow> n)
      in map_set char (count + 1) m)"

definition charCounts :: "jsstring \<Rightarrow> (jsstring \<times> nat) list" where
  "charCounts v = foldl (\<lambda>m char. count_char char m) [] (code_points (replaceAll 0x20 [] v))"

text \<open>
  \<open>Object.fromEntries\<close> makes an ordinary object: a later entry overwrites the value of
  an earlier one with the same key, and the own keys are listed with the array indices
  first, in ascending order, then the other keys in insertion order. An array index is a
  decimal numeral below \<open>2^32 - 1\<close> with no leading zero; among the keys of
  \<open>charCounts\<close>, which are single code points, these are the ten digits.
\<close>

definition is_digit :: "code_unit \<Rightarrow> bool" where
  "is_digit c \<longleftrightarrow> 0x30 \<le> c \<and> c \<le> 0x39"

definition decimal_value :: "jsstring \<Rightarrow> nat" where
  "decimal_value ds = foldl (\<lambda>n c. 10 * n + (unat c - 0x30)) 0 ds"

definition is_index_key :: "jsstring \<Rightarrow> bool" where
  "is_index_key k \<longleftrightarrow>
     k \<noteq> [] \<and> list_all is_digit k \<and> (length k = 1 \<or> hd k \<noteq> 0x30) \<and>
     decimal_value k < 2 ^ 32 - 1"

definition own_keys_order :: "(jsstring \<times> 'v) list \<Rightarrow> (jsstring \<times> 'v) list" where
  "own_keys_order m =
     sort_key (\<lambda>e. decimal_value (fst e)) (filter (\<lambda>e. is_index_key (fst e)) m)
     @ filter (\<lambda>e. \<not> is_index_key (fst e)) m"

definition fromEntries :: "(jsstring \<times> 'v) list \<Rightarrow> (jsstring \<times> 'v) list" where
  "fromEntries es = own_keys_order (foldl (\<lambda>m e. map_set (fst e) (snd e) m) [] es)"

definition characterMap :: "jsstring \<Rightarrow> (jsstring \<times> nat) list" where
  "characterMap v = fromEntries (charCounts v)"

definition is_palindrome :: "jsstring \<Rightarrow> bool" where
  "is_palindrome v \<longleftrightarrow> length v > 0 \<and> join (rev (split_units v)) = v"

definition uniqueCharactersCount :: "jsstring \<Rightarrow> nat" where
  "uniqueCharactersCount v = card (set (code_points v))"

definition wordCount :: "jsstring \<Rightarrow> nat" where
  "wordCount v = (if trim v = [] then 0 else length (split_whitespace [] (trim v)))"

section \<open>Data model\<close>

text \<open>
  What \<open>JSON.parse\<close> returns. The number of \<open>JNum\<close> stands for a double; no handler
  looks at it. \<open>JObj\<close> lists the own properties of an object, each key once.
\<close>

datatype json =
    JNull
  | JBool bool
  | JNum int
  | JStr jsstring
  | JArr "json list"
  | JObj "(jsstring \<times> json) list"

text \<open>
  \<open>responseObject\<close> of finalHandler, an element of \<open>stringsBank\<close>. The handlers are
  modelled on a collection whose elements all have this shape.
\<close>

record properties =
  p_length :: nat
  p_is_palindrome :: bool
  p_unique_characters :: nat
  p_word_count :: nat
  p_sha256_hash :: jsstring
  p_character_frequency_map :: "(jsstring \<times> nat) list"

record StringRecord =
  rec_id :: jsstring
  rec_value :: jsstring
  rec_properties :: properties
  rec_created_at :: jsstring

text \<open>
  The process state: the global \<open>stringsBank\<close>, and the payload of every
  \<open>fs.writeFile(stringsFilePath, JSON.stringify(stringsBank, null, 2))\<close> issued so far
  (the array that was serialised), oldest first. Requests are taken one at a time: a
  handler runs to its end, its \<open>await\<close>s included, before the next request starts.
\<close>

record state =
  stringsBank :: "StringRecord list"
  writes :: "StringRecord list list"

text \<open>
  What the handlers take from outside \<^verbatim>\<open>server.js\<close>: \<open>hashString\<close> of
  \<^verbatim>\<open>hashing-engine.js\<close> (\<open>None\<close> when its promise rejects), the clock read by
  \<open>new Date().toISOString()\<close>, whether \<open>fs.writeFile\<close> of a payload fulfils, and the two
  library parsers of the body middleware (\<open>None\<close> when \<open>JSON.parse\<close> throws).
\<close>

record env =
  hashString :: "jsstring \<Rightarrow> jsstring option"
  toISOString_now :: jsstring
  writeFile_ok :: "StringRecord list \<Rightarrow> bool"
  JSON_parse :: "jsstring \<Rightarrow> json option"
  URLSearchParams_entries :: "jsstring \<Rightarrow> (jsstring \<times> jsstring) list"

text \<open>
  A number: \<open>NaN\<close>, or an integer. \<open>Num n\<close> stands for the double nearest to \<open>n\<close>,
  which is \<open>n\<close> itself below \<open>2^53\<close>; lengths and word counts are far below that, so
  comparing them with \<open>Num n\<close> gives what the doubles give.
\<close>

datatype number = NaN | Num int

fun num_plus :: "number \<Rightarrow> int \<Rightarrow> number" where
  "num_plus NaN k = NaN"
| "num_plus (Num n) k = Num (n + k)"

text \<open>\<open>len >= x\<close>, \<open>len <= x\<close> and \<open>len === x\<close> for a count \<open>len\<close>; all false at \<open>NaN\<close>.\<close>

fun nat_ge :: "nat \<Rightarrow> number \<Rightarrow> bool" where
  "nat_ge len NaN = False"
| "nat_ge len (Num n) = (int len \<ge> n)"

fun nat_le :: "nat \<Rightarrow> number \<Rightarrow> bool" where
  "nat_le len NaN = False"
| "nat_le len (Num n) = (int len \<le> n)"

fun nat_eq :: "nat \<Rightarrow> number \<Rightarrow> bool" where
  "nat_eq len NaN = False"
| "nat_eq len (Num n) = (int len = n)"

text \<open>
  A value of the parsed query string (\<open>url.parse(req.url, true)\<close>): a string, or an
  array of strings when the key is repeated. \<open>toString_q\<close> is the conversion
  \<open>parseInt\<close> and \<open>includes\<close> apply to their argument; an array joins its elements
  with commas.
\<close>

datatype qvalue = QStr jsstring | QArr "jsstring list"

type_synonym query = "(jsstring \<times> qvalue) list"

definition query_get :: "query \<Rightarrow> string \<Rightarrow> qvalue option" where
  "query_get q k = map_of q (js k)"

fun join_comma :: "jsstring list \<Rightarrow> jsstring" where
  "join_comma [] = []"
| "join_comma [x] = x"
| "join_comma (x # y # xs) = x @ [0x2C] @ join_comma (y # xs)"

fun toString_q :: "qvalue \<Rightarrow> jsstring" where
  "toString_q (QStr s) = s"
| "toString_q (QArr xs) = join_comma xs"

record filters_applied =
  fa_is_palindrome :: "bool option"
  fa_min_length :: "number option"
  fa_max_length :: "number option"
  fa_word_count :: "number option"
  fa_contains_character :: "qvalue option"

record parsed_filters =
  pf_is_palindrome :: "bool option"
  pf_word_count :: "number option"
  pf_min_length :: "number option"
  pf_contains_character :: "jsstring option"

text \<open>
  The JSON bodies the handlers send. Every response carries the header
  \<open>content-type: application/json\<close>, the 204 of a deletion included.
\<close>

datatype body =
    ErrorBody string
  | SuccessBody StringRecord
  | ListBody "StringRecord list" nat filters_applied
  | QueryBody "StringRecord list" nat jsstring parsed_filters
  | NoBody

datatype response = Response (status: nat) (body: body)

text \<open>
  What a request ends in: a response, or an exception that leaves the handler with
  nothing written to \<open>res\<close> (a rejected promise of an \<open>async\<close> handler, or a throw out
  of the request listener).
\<close>

datatype js_error = TypeError | URIError | Error string

datatype outcome = Responded response | Unanswered js_error

section \<open>finalHandler: POST /strings\<close>

text \<open>
  \<open>const { value } = req.body\<close>: destructuring \<open>null\<close> throws a TypeError; an object
  gives its property or \<open>undefined\<close>; a string, a number, a boolean or an array has no
  property \<open>value\<close>.
\<close>

datatype js_value = Undefined | Defined json

fun destructure_value :: "json \<Rightarrow> js_error + js_value" where
  "destructure_value JNull = Inl TypeError"
| "destructure_value (JObj ps) =
     Inr (case map_of ps (js ''value'') of None \<Rightarrow> Undefined | Some j \<Rightarrow> Defined j)"
| "destructure_value j = Inr Undefined"

definition responseObject :: "jsstring \<Rightarrow> jsstring \<Rightarrow> jsstring \<Rightarrow> StringRecord" where
  "responseObject hashedString v created =
     \<lparr> rec_id = hashedString,
       rec_value = v,
       rec_properties =
         \<lparr> p_length = length v,
           p_is_palindrome = is_palindrome v,
           p_unique_characters = uniqueCharactersCount v,
           p_word_count = wordCount v,
           p_sha256_hash = hashedString,
           p_character_frequency_map = characterMap v \<rparr>,
       rec_created_at = created \<rparr>"

definition internal_server_error :: response where
  "internal_server_error = Response 500 (ErrorBody ''Internal server error'')"

text \<open>
  The part of the \<open>try\<close> block after the three checks. The record is pushed before the
  file is written, so a write that fails is answered 500 with the record in the bank.
\<close>

definition create_record :: "env \<Rightarrow> jsstring \<Rightarrow> state \<Rightarrow> outcome \<times> state" where
  "create_record e v s =
     (case hashString e v of
        None \<Rightarrow> (Responded internal_server_error, s)
      | Some hashedString \<Rightarrow>
          let r = responseObject hashedString v (toISOString_now e);
              bank = stringsBank s @ [r];
              s' = s\<lparr> stringsBank := bank, writes := writes s @ [bank] \<rparr>
          in if writeFile_ok e bank then (Responded (Response 201 (SuccessBody r)), s')
             else (Responded internal_server_error, s'))"

definition finalHandler :: "env \<Rightarrow> json \<Rightarrow> state \<Rightarrow> outcome \<times> state" where
  "finalHandler e req_body s =
     (case destructure_value req_body of
        Inl err \<Rightarrow> (Responded internal_server_error, s)
      | Inr Undefined \<Rightarrow>
          (Responded (Response 400
             (ErrorBody ''Invalid request body or missing 'value' field'')), s)
      | Inr (Defined (JStr v)) \<Rightarrow>
          if list_ex (\<lambda>el. rec_value el = v) (stringsBank s)
          then (Responded (Response 409 (ErrorBody ''String already exists in the system'')), s)
          else create_record e v s
      | Inr (Defined j) \<Rightarrow>
          (Responded (Response 422
             (ErrorBody ''Invalid data type for 'value' (must be string)'')), s))"

section \<open>decodeURIComponent\<close>

text \<open>
  The Decode operation of ECMAScript with an empty set of preserved escapes; \<open>None\<close> is
  the URIError. An escape \<open>%XX\<close> below \<open>0x80\<close> is that code unit; a lead octet announces
  by its leading one bits how many octets follow, each an escape of its own, and together
  they must be the UTF-8 encoding of a code point (continuation octets \<open>10xxxxxx\<close>, no
  overlong form, no surrogate, nothing above \<open>0x10FFFF\<close>).
\<close>

definition hex_digit :: "code_unit \<Rightarrow> nat option" where
  "hex_digit c =
     (if 0x30 \<le> c \<and> c \<le> 0x39 then Some (unat c - 0x30)
      else if 0x41 \<le> c \<and> c \<le> 0x46 then Some (unat c - 0x37)
      else if 0x61 \<le> c \<and> c \<le> 0x66 then Some (unat c - 0x57)
      else None)"

fun percent_octet :: "jsstring \<Rightarrow> (nat \<times> jsstring) option" where
  "percent_octet (p # h # l # rest) =
     (if p = 0x25 then
        (case hex_digit h of None \<Rightarrow> None
         | Some a \<Rightarrow> (case hex_digit l of None \<Rightarrow> None | Some b \<Rightarrow> Some (16 * a + b, rest)))
      else None)"
| "percent_octet s = None"

fun continuation_octets :: "nat \<Rightarrow> jsstring \<Rightarrow> (nat list \<times> jsstring) option" where
  "continuation_octets 0 s = Some ([], s)"
| "continuation_octets (Suc n) s =
     (case percent_octet s of None \<Rightarrow> None
      | Some (b, rest) \<Rightarrow>
          (case continuation_octets n rest of None \<Rightarrow> None
           | Some (bs, rest') \<Rightarrow> Some (b # bs, rest')))"

definition leading_ones :: "nat \<Rightarrow> nat" where
  "leading_ones B =
     (if B < 0x80 then 0 else if B < 0xC0 then 1 else if B < 0xE0 then 2
      else if B < 0xF0 then 3 else if B < 0xF8 then 4 else 5)"

definition utf8_code_point :: "nat \<Rightarrow> nat list \<Rightarrow> nat option" where
  "utf8_code_point B bs =
     (if \<not> list_all (\<lambda>b. 0x80 \<le> b \<and> b < 0xC0) bs then None
      else
        let n = Suc (length bs);
            V = foldl (\<lambda>v b. v * 64 + b mod 64) (B mod 2 ^ (7 - n)) bs;
            least = (if n = 2 then 0x80 else if n = 3 then 0x800 else 0x10000)
        in if V < least \<or> (0xD800 \<le> V \<and> V \<le> 0xDFFF) \<or> 0x10FFFF < V then None
           else Some V)"

definition UTF16EncodeCodePoint :: "nat \<Rightarrow> jsstring" where
  "UTF16EncodeCodePoint cp =
     (if cp \<le> 0xFFFF then [of_nat cp]
      else [of_nat (0xD800 + (cp - 0x10000) div 0x400),
            of_nat (0xDC00 + (cp - 0x10000) mod 0x400)])"

function decodeURIComponent :: "jsstring \<Rightarrow> jsstring option" where
  "decodeURIComponent [] = Some []"
| "decodeURIComponent (c # cs) =
     (if c \<noteq> 0x25 then map_option ((#) c) (decodeURIComponent cs)
      else
        (case percent_octet (c # cs) of
           None \<Rightarrow> None
         | Some (B, rest) \<Rightarrow>
             if leading_ones B = 0 then map_option ((#) (of_nat B)) (decodeURIComponent rest)
             else if leading_ones B = 1 \<or> 4 < leading_ones B then None
             else
               (case continuation_octets (leading_ones B - 1) rest of
                  None \<Rightarrow> None
                | Some (bs, rest') \<Rightarrow>
                    (case utf8_code_point B bs of
                       None \<Rightarrow> None
                     | Some V \<Rightarrow>
                         map_option ((@) (UTF16EncodeCodePoint V)) (decodeURIComponent rest')))))"
  by pat_completeness auto
termination
proof (relation "measure length")
  have octet: "length rest < length s" if "percent_octet s = Some (b, rest)" for s b rest
    using that by (induction s rule: percent_octet.induct) (auto split: if_splits option.splits)
  have octets: "length rest \<le> length s" if "continuation_octets n s = Some (bs, rest)"
    for n s bs rest
    using that
  proof (induction n arbitrary: s bs rest)
    case 0
    then show ?case by simp
  next
    case (Suc n)
    then show ?case by (fastforce split: option.splits dest: octet)
  qed
  show "wf (measure length)" by simp
  show "(cs, c # cs) \<in> measure length" for c :: code_unit and cs
    by simp
  show "(rest, c # cs) \<in> measure length"
    if "percent_octet (c # cs) = Some x2" "(B, rest) = x2"
    for c :: code_unit and cs x2 B rest
    using that octet [of "c # cs" B rest] by simp
  show "(rest', c # cs) \<in> measure length"
    if "percent_octet (c # cs) = Some x2" "(B, rest) = x2"
      "continuation_octets (leading_ones B - 1) rest = Some x2a" "(bs, rest') = x2a"
    for c :: code_unit and cs x2 B rest x2a bs rest'
    using that octet [of "c # cs" B rest] octets [of "leading_ones B - 1" rest bs rest']
    by simp
qed

section \<open>getStringHandler and deleteStringHandler\<close>

definition not_found :: response where
  "not_found = Response 404 (ErrorBody ''String does not exist in the system'')"

text \<open>
  getStringHandler is \<open>async\<close> and has no \<open>try\<close>: a URIError of
  \<open>decodeURIComponent\<close> rejects its promise, which nothing awaits.
\<close>

definition getStringHandler :: "jsstring \<Rightarrow> state \<Rightarrow> outcome \<times> state" where
  "getStringHandler stringValue s =
     (case decodeURIComponent stringValue of
        None \<Rightarrow> (Unanswered URIError, s)
      | Some decodedValue \<Rightarrow>
          (case find (\<lambda>el. rec_value el = decodedValue) (stringsBank s) of
             Some foundStringData \<Rightarrow> (Responded (Response 200 (SuccessBody foundStringData)), s)
           | None \<Rightarrow> (Responded not_found, s)))"

fun findIndex :: "('a \<Rightarrow> bool) \<Rightarrow> 'a list \<Rightarrow> nat option" where
  "findIndex P [] = None"
| "findIndex P (x # xs) = (if P x then Some 0 else map_option Suc (findIndex P xs))"

text \<open>\<open>xs.splice(i, 1)\<close> for an index \<open>i\<close> of \<open>xs\<close>.\<close>

definition splice_one :: "nat \<Rightarrow> 'a list \<Rightarrow> 'a list" where
  "splice_one i xs = take i xs @ drop (Suc i) xs"

definition deleteStringHandler :: "env \<Rightarrow> jsstring \<Rightarrow> state \<Rightarrow> outcome \<times> state" where
  "deleteStringHandler e stringValue s =
     (case decodeURIComponent stringValue of
        None \<Rightarrow> (Responded internal_server_error, s)
      | Some decodedValue \<Rightarrow>
          (case findIndex (\<lambda>el. rec_value el = decodedValue) (stringsBank s) of
             None \<Rightarrow> (Responded not_found, s)
           | Some index \<Rightarrow>
               let bank = splice_one index (stringsBank s);
                   s' = s\<lparr> stringsBank := bank, writes := writes s @ [bank] \<rparr>
               in if writeFile_ok e bank then (Responded (Response 204 NoBody), s')
                  else (Responded internal_server_error, s')))"

section \<open>getAllStringsHandler: GET /strings\<close>

text \<open>
  \<open>parseInt(x)\<close> with no radix: leading whitespace and one sign are skipped, \<open>0x\<close> or
  \<open>0X\<close> switches to radix 16, and the longest run of digits of the radix is read; the
  result is \<open>NaN\<close> exactly when that run is empty.
\<close>

definition digit_in_radix :: "nat \<Rightarrow> code_unit \<Rightarrow> nat option" where
  "digit_in_radix R c =
     (let d = (if 0x30 \<le> c \<and> c \<le> 0x39 then Some (unat c - 0x30)
               else if 0x41 \<le> c \<and> c \<le> 0x5A then Some (unat c - 0x37)
               else if 0x61 \<le> c \<and> c \<le> 0x7A then Some (unat c - 0x57)
               else None)
      in case d of None \<Rightarrow> None | Some n \<Rightarrow> if n < R then Some n else None)"

definition parseInt :: "jsstring \<Rightarrow> number" where
  "parseInt inputString =
     (let S = dropWhile is_whitespace inputString;
          sign = (if starts_with S [0x2D] then - 1 else (1 :: int));
          S1 = (if starts_with S [0x2B] \<or> starts_with S [0x2D] then drop 1 S else S);
          hex = (starts_with S1 (js ''0x'') \<or> starts_with S1 (js ''0X''));
          R = (if hex then 16 else 10);
          S2 = (if hex then drop 2 S1 else S1);
          Z = takeWhile (\<lambda>c. digit_in_radix R c \<noteq> None) S2
      in if Z = [] then NaN
         else Num (sign * int (foldl (\<lambda>n c. n * R +
                (case digit_in_radix R c of None \<Rightarrow> 0 | Some d \<Rightarrow> d)) 0 Z)))"

definition isNaN :: "number \<Rightarrow> bool" where
  "isNaN x \<longleftrightarrow> x = NaN"

text \<open>
  The \<open>try\<close> block: \<open>results\<close> and \<open>filters_applied\<close> pass through the five \<open>if\<close>
  statements in their order; a \<open>throw\<close> ends the block (\<open>Inl\<close>).
\<close>

type_synonym filtering = "StringRecord list \<times> filters_applied"

definition no_filters_applied :: filters_applied where
  "no_filters_applied =
     \<lparr> fa_is_palindrome = None, fa_min_length = None, fa_max_length = None,
       fa_word_count = None, fa_contains_character = None \<rparr>"

definition if_is_palindrome :: "query \<Rightarrow> filtering \<Rightarrow> js_error + filtering" where
  "if_is_palindrome q st =
     (case query_get q ''is_palindrome'' of
        None \<Rightarrow> Inr st
      | Some x \<Rightarrow>
          let isPalindrome = (x = QStr (js ''true''))
          in Inr (filter (\<lambda>s. p_is_palindrome (rec_properties s) = isPalindrome) (fst st),
                  (snd st)\<lparr> fa_is_palindrome := Some isPalindrome \<rparr>))"

definition if_min_length :: "query \<Rightarrow> filtering \<Rightarrow> js_error + filtering" where
  "if_min_length q st =
     (case query_get q ''min_length'' of
        None \<Rightarrow> Inr st
      | Some x \<Rightarrow>
          let min = parseInt (toString_q x)
          in if isNaN min then Inl (Error ''Invalid min_length'')
             else Inr (filter (\<lambda>s. nat_ge (p_length (rec_properties s)) min) (fst st),
                       (snd st)\<lparr> fa_min_length := Some min \<rparr>))"

definition if_max_length :: "query \<Rightarrow> filtering \<Rightarrow> js_error + filtering" where
  "if_max_length q st =
     (case query_get q ''max_length'' of
        None \<Rightarrow> Inr st
      | Some x \<Rightarrow>
          let max = parseInt (toString_q x)
          in if isNaN max then Inl (Error ''Invalid max_length'')
             else Inr (filter (\<lambda>s. nat_le (p_length (rec_properties s)) max) (fst st),
                       (snd st)\<lparr> fa_max_length := Some max \<rparr>))"

definition if_word_count :: "query \<Rightarrow> filtering \<Rightarrow> js_error + filtering" where
  "if_word_count q st =
     (case query_get q ''word_count'' of
        None \<Rightarrow> Inr st
      | Some x \<Rightarrow>
          let count = parseInt (toString_q x)
          in if isNaN count then Inl (Error ''Invalid word_count'')
             else Inr (filter (\<lambda>s. nat_eq (p_word_count (rec_properties s)) count) (fst st),
                       (snd st)\<lparr> fa_word_count := Some count \<rparr>))"

definition if_contains_character :: "query \<Rightarrow> filtering \<Rightarrow> js_error + filtering" where
  "if_contains_character q st =
     (case query_get q ''contains_character'' of
        None \<Rightarrow> Inr st
      | Some x \<Rightarrow>
          Inr (filter (\<lambda>s. includes_str (rec_value s) (toString_q x)) (fst st),
               (snd st)\<lparr> fa_contains_character := Some x \<rparr>))"

definition and_then :: "'e + 'a \<Rightarrow> ('a \<Rightarrow> 'e + 'b) \<Rightarrow> 'e + 'b" where
  "and_then r f = (case r of Inl e \<Rightarrow> Inl e | Inr x \<Rightarrow> f x)"

definition apply_filters :: "query \<Rightarrow> StringRecord list \<Rightarrow> js_error + filtering" where
  "apply_filters q bank =
     and_then (and_then (and_then (and_then
       (if_is_palindrome q (bank, no_filters_applied))
       (if_min_length q)) (if_max_length q)) (if_word_count q)) (if_contains_character q)"

definition invalid_query :: response where
  "invalid_query = Response 400 (ErrorBody ''Invalid query parameter values or types'')"

definition getAllStringsHandler :: "query \<Rightarrow> state \<Rightarrow> outcome \<times> state" where
  "getAllStringsHandler q s =
     (case apply_filters q (stringsBank s) of
        Inl err \<Rightarrow> (Responded invalid_query, s)
      | Inr (results, filters) \<Rightarrow>
          (Responded (Response 200 (ListBody results (length results) filters)), s))"

section \<open>naturalLanguageHandler: GET /strings/filter-by-natural-language\<close>

text \<open>
  The three regular expressions. A literal character matches itself; under the flag
  \<open>i\<close> (without \<open>u\<close>) an ASCII letter of the pattern matches its two ASCII cases and
  nothing else, and \<open>\w\<close> stays \<open>[A-Za-z0-9_]\<close>. \<open>match\<close> returns the leftmost match;
  \<open>\d+\<close> takes the longest run of digits.
\<close>

definition to_upper :: "code_unit \<Rightarrow> code_unit" where
  "to_upper c = (if 0x61 \<le> c \<and> c \<le> 0x7A then c - 0x20 else c)"

definition same_letter :: "bool \<Rightarrow> code_unit \<Rightarrow> code_unit \<Rightarrow> bool" where
  "same_letter ignore_case p c \<longleftrightarrow> (if ignore_case then to_upper p = to_upper c else p = c)"

fun strip_literal :: "bool \<Rightarrow> jsstring \<Rightarrow> jsstring \<Rightarrow> jsstring option" where
  "strip_literal i [] s = Some s"
| "strip_literal i (p # ps) [] = None"
| "strip_literal i (p # ps) (c # cs) =
     (if same_letter i p c then strip_literal i ps cs else None)"

fun leftmost :: "(jsstring \<Rightarrow> 'a option) \<Rightarrow> jsstring \<Rightarrow> 'a option" where
  "leftmost m [] = m []"
| "leftmost m (c # cs) = (case m (c # cs) of Some r \<Rightarrow> Some r | None \<Rightarrow> leftmost m cs)"

definition is_word_char :: "code_unit \<Rightarrow> bool" where
  "is_word_char c \<longleftrightarrow>
     (0x41 \<le> c \<and> c \<le> 0x5A) \<or> (0x61 \<le> c \<and> c \<le> 0x7A) \<or> is_digit c \<or> c = 0x5F"

text \<open>\<open>originalQuery.match(/longer than (\d+)/)\<close>: the capture group, if it matches.\<close>

definition longer_than_here :: "jsstring \<Rightarrow> jsstring option" where
  "longer_than_here s =
     (case strip_literal False (js ''longer than '') s of
        None \<Rightarrow> None
      | Some rest \<Rightarrow>
          if takeWhile is_digit rest = [] then None else Some (takeWhile is_digit rest))"

definition longerThanMatch :: "jsstring \<Rightarrow> jsstring option" where
  "longerThanMatch originalQuery = leftmost longer_than_here originalQuery"

text \<open>\<open>originalQuery.match(/containing the letter (\w)/i)\<close>: the capture group.\<close>

definition containing_here :: "jsstring \<Rightarrow> jsstring option" where
  "containing_here s =
     (case strip_literal True (js ''containing the letter '') s of
        None \<Rightarrow> None
      | Some [] \<Rightarrow> None
      | Some (x # rest) \<Rightarrow> if is_word_char x then Some [x] else None)"

definition containsMatch :: "jsstring \<Rightarrow> jsstring option" where
  "containsMatch originalQuery = leftmost containing_here originalQuery"

text \<open>\<open>originalQuery.match(/first vowel/i)\<close>: whether it matches.\<close>

definition firstVowelMatch :: "jsstring \<Rightarrow> bool" where
  "firstVowelMatch originalQuery \<longleftrightarrow>
     leftmost (\<lambda>s. map_option (\<lambda>rest. ()) (strip_literal True (js ''first vowel'') s))
       originalQuery \<noteq> None"

type_synonym narrowing = "StringRecord list \<times> parsed_filters"

definition no_parsed_filters :: parsed_filters where
  "no_parsed_filters =
     \<lparr> pf_is_palindrome = None, pf_word_count = None, pf_min_length = None,
       pf_contains_character = None \<rparr>"

definition rule_palindromic :: "jsstring \<Rightarrow> narrowing \<Rightarrow> narrowing" where
  "rule_palindromic originalQuery st =
     (if includes_str originalQuery (js ''palindromic'')
      then (filter (\<lambda>s. p_is_palindrome (rec_properties s) = True) (fst st),
            (snd st)\<lparr> pf_is_palindrome := Some True \<rparr>)
      else st)"

definition rule_single_word :: "jsstring \<Rightarrow> narrowing \<Rightarrow> narrowing" where
  "rule_single_word originalQuery st =
     (if includes_str originalQuery (js ''single word'')
      then (filter (\<lambda>s. nat_eq (p_word_count (rec_properties s)) (Num 1)) (fst st),
            (snd st)\<lparr> pf_word_count := Some (Num 1) \<rparr>)
      else st)"

definition rule_longer_than :: "jsstring \<Rightarrow> narrowing \<Rightarrow> narrowing" where
  "rule_longer_than originalQuery st =
     (case longerThanMatch originalQuery of
        None \<Rightarrow> st
      | Some digits \<Rightarrow>
          let min = num_plus (parseInt digits) 1
          in (filter (\<lambda>s. nat_ge (p_length (rec_properties s)) min) (fst st),
              (snd st)\<lparr> pf_min_length := Some min \<rparr>))"

definition rule_containing :: "jsstring \<Rightarrow> narrowing \<Rightarrow> narrowing" where
  "rule_containing originalQuery st =
     (case containsMatch originalQuery of
        None \<Rightarrow> st
      | Some char \<Rightarrow>
          (filter (\<lambda>s. includes_str (rec_value s) char) (fst st),
           (snd st)\<lparr> pf_contains_character := Some char \<rparr>))"

definition rule_first_vowel :: "jsstring \<Rightarrow> narrowing \<Rightarrow> narrowing" where
  "rule_first_vowel originalQuery st =
     (if firstVowelMatch originalQuery
      then (filter (\<lambda>s. includes_str (rec_value s) (js ''a'')) (fst st),
            (snd st)\<lparr> pf_contains_character := Some (js ''a'') \<rparr>)
      else st)"

definition apply_rules :: "jsstring \<Rightarrow> StringRecord list \<Rightarrow> narrowing" where
  "apply_rules originalQuery bank =
     rule_first_vowel originalQuery
       (rule_containing originalQuery
         (rule_longer_than originalQuery
           (rule_single_word originalQuery
             (rule_palindromic originalQuery (bank, no_parsed_filters)))))"

definition missing_query :: response where
  "missing_query = Response 400 (ErrorBody ''Missing 'query' parameter'')"

text \<open>
  \<open>query.query || ""\<close> is the empty string when the parameter is absent or empty. A
  repeated parameter is an array: it is truthy, it has \<open>includes\<close>, and it has no
  \<open>match\<close>, so \<open>originalQuery.match(...)\<close> throws a TypeError out of the handler, which
  has no \<open>try\<close>.
\<close>

definition naturalLanguageHandler :: "query \<Rightarrow> state \<Rightarrow> outcome \<times> state" where
  "naturalLanguageHandler q s =
     (case query_get q ''query'' of
        None \<Rightarrow> (Responded missing_query, s)
      | Some (QArr xs) \<Rightarrow> (Unanswered TypeError, s)
      | Some (QStr originalQuery) \<Rightarrow>
          if originalQuery = [] then (Responded missing_query, s)
          else
            (case apply_rules originalQuery (stringsBank s) of
               (results, parsed) \<Rightarrow>
                 (Responded (Response 200
                    (QueryBody results (length results) originalQuery parsed)), s)))"

section \<open>The server: body middleware and router\<close>

record request =
  req_method :: string
  req_pathname :: jsstring
  req_query :: query
  req_content_type :: "jsstring option"
  req_body_text :: jsstring

text \<open>\<open>pathname.split("/")\<close>.\<close>

fun split_on :: "code_unit \<Rightarrow> jsstring \<Rightarrow> jsstring list" where
  "split_on sep [] = [[]]"
| "split_on sep (c # cs) =
     (if c = sep then [] # split_on sep cs
      else (case split_on sep cs of [] \<Rightarrow> [[c]] | p # ps \<Rightarrow> (c # p) # ps))"

datatype route = Create | ListAll | NaturalLanguage | GetOne jsstring | Delete jsstring | NotFound

text \<open>
  The \<open>else if\<close> chain of \<open>next\<close>, entered once the middleware stack is used up.
  \<open>urlParts[1]\<close> is \<open>undefined\<close> when there is no such element.
\<close>

definition router :: "jsstring \<Rightarrow> string \<Rightarrow> route" where
  "router pathname method =
     (let urlParts = split_on 0x2F pathname;
          one_segment = (1 < length urlParts \<and> urlParts ! 1 = js ''strings'' \<and>
                         length urlParts = 3)
      in if pathname = js ''/strings'' \<and> method = ''POST'' then Create
         else if pathname = js ''/strings'' \<and> method = ''GET'' then ListAll
         else if pathname = js ''/strings/filter-by-natural-language'' \<and> method = ''GET''
           then NaturalLanguage
         else if one_segment \<and> method = ''GET'' then GetOne (urlParts ! 2)
         else if one_segment \<and> method = ''DELETE'' then Delete (urlParts ! 2)
         else NotFound)"

text \<open>
  convertStream, the one middleware: \<open>Inr\<close> is \<open>req.body\<close> when it calls \<open>next()\<close>,
  \<open>Inl\<close> the 400 it sends itself, after which nothing else runs.
\<close>

definition convertStream :: "env \<Rightarrow> request \<Rightarrow> response + json" where
  "convertStream e req =
     (if req_method req \<noteq> ''POST'' then Inr (JObj [])
      else if req_body_text req = [] then Inr (JObj [])
      else if req_content_type req = Some (js ''application/json'') then
        (case JSON_parse e (req_body_text req) of
           None \<Rightarrow> Inl (Response 400 (ErrorBody ''Invalid JSON format''))
         | Some j \<Rightarrow> Inr j)
      else if req_content_type req = Some (js ''application/x-www-form-urlencoded'') then
        Inr (JObj (fromEntries
          (map (\<lambda>kv. (fst kv, JStr (snd kv))) (URLSearchParams_entries e (req_body_text req)))))
      else Inr (JObj []))"

definition dispatch :: "env \<Rightarrow> request \<Rightarrow> json \<Rightarrow> state \<Rightarrow> outcome \<times> state" where
  "dispatch e req req_body s =
     (case router (req_pathname req) (req_method req) of
        Create \<Rightarrow> finalHandler e req_body s
      | ListAll \<Rightarrow> getAllStringsHandler (req_query req) s
      | NaturalLanguage \<Rightarrow> naturalLanguageHandler (req_query req) s
      | GetOne stringParam \<Rightarrow> getStringHandler stringParam s
      | Delete stringParam \<Rightarrow> deleteStringHandler e stringParam s
      | NotFound \<Rightarrow> (Responded (Response 404 (ErrorBody ''Route not found'')), s))"

definition server :: "env \<Rightarrow> request \<Rightarrow> state \<Rightarrow> outcome \<times> state" where
  "server e req s =
     (case convertStream e req of
        Inl r \<Rightarrow> (Responded r, s)
      | Inr req_body \<Rightarrow> dispatch e req req_body s)"

section \<open>Loading the collection at startup (lines 14--26)\<close>

text \<open>
  What the read of \<^verbatim>\<open>strings.json\<close> meets: no file (\<open>ENOENT\<close>), another read
  failure, a text \<open>JSON.parse\<close> rejects, or a text it parses to a value. The second
  component of the result is the line logged.
\<close>

datatype storage = NoFile | ReadFailure | Malformed | Parses json

datatype log_line = Loaded | NoDatabaseFile | FailedToLoad

definition load_stringsBank :: "storage \<Rightarrow> json \<times> log_line" where
  "load_stringsBank f =
     (let stringsBank0 = JArr []
      in case f of
           NoFile \<Rightarrow> (stringsBank0, NoDatabaseFile)
         | ReadFailure \<Rightarrow> (stringsBank0, FailedToLoad)
         | Malformed \<Rightarrow> (stringsBank0, FailedToLoad)
         | Parses j \<Rightarrow> (j, Loaded))"

section \<open>Vocabulary of the properties\<close>





text \<open>
  The \<open>value\<close> field of a structured body: objects alone have fields.
\<close>

definition value_field :: "json \<Rightarrow> json option" where
  "value_field req_body =
     (case req_body of JObj ps \<Rightarrow> map_of ps (js ''value'') | _ \<Rightarrow> None)"

text \<open>
  An environment for examples: a stand-in digest, a fixed clock, writes that succeed, and
  a form parser that knows the one body \<open>value=hello+world\<close>.
\<close>

definition witness_env :: env where
  "witness_env =
     \<lparr> hashString = (\<lambda>v. Some (js ''digest of '' @ v)),
       toISOString_now = js ''2025-10-22T08:00:00.000Z'',
       writeFile_ok = (\<lambda>bank. True),
       JSON_parse = (\<lambda>text. None),
       URLSearchParams_entries =
         (\<lambda>text. if text = js ''value=hello+world'' then [(js ''value'', js ''hello world'')]
                  else []) \<rparr>"

section \<open>Properties\<close>

subsection \<open>The palindrome flag\<close>

lemma join_rev_split_units: "join (rev (split_units v)) = rev v"
  by (induction v) (simp_all add: join_def split_units_def)

text \<open>
  C3. For every string \<open>S\<close>, \<open>is_palindrome\<close> is true exactly when \<open>S\<close> is not empty
  and equals its reversal, taken code unit by code unit as \<open>split("")\<close> does (case,
  spaces and punctuation count); it is false for the empty string. The flag stored in
  the record of \<open>S\<close> is this value.
\<close>

theorem is_palindrome_iff_own_reversal:
  "is_palindrome S = (S \<noteq> [] \<and> rev S = S) \<and>
   p_is_palindrome (rec_properties (responseObject h S t)) = (S \<noteq> [] \<and> rev S = S) \<and>
   is_palindrome [] = False"
  by (auto simp: is_palindrome_def join_rev_split_units responseObject_def)

subsection \<open>Routing\<close>

lemma split_on_no_separator: "sep \<notin> set s \<Longrightarrow> split_on sep s = [s]"
  by (induction s) auto

lemma router_get_one:
  assumes "0x2F \<notin> set seg"
    and "js ''/strings/'' @ seg \<noteq> js ''/strings/filter-by-natural-language''"
  shows "router (js ''/strings/'' @ seg) ''GET'' = GetOne seg"
proof -
  have parts: "split_on 0x2F (js ''/strings/'' @ seg) = [[], js ''strings'', seg]"
    using assms(1) by (simp add: js_def split_on_no_separator)
  have "js ''/strings/'' @ seg \<noteq> js ''/strings''"
    by (simp add: js_def)
  then show ?thesis using assms(2) by (simp add: router_def parts)
qed

lemma router_GetOne_is_GET: "router p m = GetOne seg \<Longrightarrow> m = ''GET''"
  by (auto simp: router_def Let_def split: if_splits)

lemma router_ListAll_is_GET: "router p m = ListAll \<Longrightarrow> m = ''GET''"
  by (auto simp: router_def Let_def split: if_splits)

lemma server_get_one:
  "router (req_pathname req) (req_method req) = GetOne seg \<Longrightarrow>
   server e req s = getStringHandler seg s"
  using router_GetOne_is_GET [of "req_pathname req" "req_method req" seg]
  by (simp add: server_def dispatch_def convertStream_def)

lemma server_list_all:
  "router (req_pathname req) (req_method req) = ListAll \<Longrightarrow>
   server e req s = getAllStringsHandler (req_query req) s"
  using router_ListAll_is_GET [of "req_pathname req" "req_method req"]
  by (simp add: server_def dispatch_def convertStream_def)

text \<open>
  C5. A GET request whose path is exactly \<open>/strings/filter-by-natural-language\<close> is
  handled by naturalLanguageHandler, whatever else the request holds: the literal rule
  stands before the rule for one segment after \<open>/strings\<close>, which this path also fits
  (it splits into three parts, the second being \<open>strings\<close>).
\<close>

theorem natural_language_route_wins:
  "router (js ''/strings/filter-by-natural-language'') ''GET'' = NaturalLanguage \<and>
   server e (req\<lparr> req_pathname := js ''/strings/filter-by-natural-language'',
                    req_method := ''GET'' \<rparr>) s
     = naturalLanguageHandler (req_query req) s \<and>
   split_on 0x2F (js ''/strings/filter-by-natural-language'')
     = [[], js ''strings'', js ''filter-by-natural-language'']"
  by (simp add: router_def server_def dispatch_def convertStream_def js_def)

subsection \<open>Startup\<close>

text \<open>
  C9, as stated, fails: a storage file holding valid JSON that is not an array, here the
  empty object, becomes the collection as it is.
\<close>

theorem load_keeps_non_array_json:
  "fst (load_stringsBank (Parses (JObj []))) \<noteq> JArr []"
  by (simp add: load_stringsBank_def)

text \<open>
  C9, amended. Loading always returns: the collection is the empty array when the file
  does not exist, when reading it fails otherwise, and when its text is not valid JSON;
  a text that is valid JSON becomes the collection as parsed, whatever its shape.
\<close>

theorem load_stringsBank_cases:
  "load_stringsBank NoFile = (JArr [], NoDatabaseFile) \<and>
   load_stringsBank ReadFailure = (JArr [], FailedToLoad) \<and>
   load_stringsBank Malformed = (JArr [], FailedToLoad) \<and>
   load_stringsBank (Parses j) = (j, Loaded)"
  by (simp add: load_stringsBank_def)

subsection \<open>The handlers that only read\<close>

lemma getStringHandler_state: "snd (getStringHandler stringValue s) = s"
  by (simp add: getStringHandler_def split: option.splits)

lemma getAllStringsHandler_state: "snd (getAllStringsHandler q s) = s"
  by (simp add: getAllStringsHandler_def split: sum.splits prod.splits)

lemma naturalLanguageHandler_state: "snd (naturalLanguageHandler q s) = s"
  by (simp add: naturalLanguageHandler_def split: option.splits qvalue.splits prod.splits)

text \<open>
  C10. getStringHandler, getAllStringsHandler and naturalLanguageHandler leave the state
  as it was, the collection and the list of file writes alike, whatever they answer and
  also when they throw. A request changes the state only if the router sends it to the
  create or the delete handler.
\<close>

theorem read_handlers_leave_state:
  "snd (getStringHandler stringValue s) = s \<and>
   snd (getAllStringsHandler q s) = s \<and>
   snd (naturalLanguageHandler q s) = s \<and>
   (snd (server e req s) = s \<or>
    router (req_pathname req) (req_method req) = Create \<or>
    (\<exists>stringParam. router (req_pathname req) (req_method req) = Delete stringParam))"
  by (auto simp: getStringHandler_state getAllStringsHandler_state naturalLanguageHandler_state
        server_def dispatch_def split: sum.splits route.splits)

subsection \<open>Exceptions\<close>

text \<open>
  C8 at \<open>GET /strings/%\<close>. The segment \<open>%\<close> is not a percent escape, so
  \<open>decodeURIComponent\<close> throws; getStringHandler has no \<open>try\<close> and the request gets no
  response. deleteStringHandler, which wraps the same call in \<open>try\<close>, answers 500.
\<close>

theorem get_one_malformed_escape_unanswered:
  "server e \<lparr> req_method = ''GET'', req_pathname = js ''/strings/%'', req_query = q,
              req_content_type = ct, req_body_text = b \<rparr> s
     = (Unanswered URIError, s) \<and>
   server e \<lparr> req_method = ''DELETE'', req_pathname = js ''/strings/%'', req_query = q,
              req_content_type = ct, req_body_text = b \<rparr> s
     = (Responded (Response 500 (ErrorBody ''Internal server error'')), s)"
  by (simp add: server_def dispatch_def convertStream_def router_def js_def
        getStringHandler_def deleteStringHandler_def internal_server_error_def)

text \<open>
  A repeated \<open>query\<close> parameter reaches naturalLanguageHandler as an array; the
  TypeError of \<open>originalQuery.match\<close> leaves the handler, which has no \<open>try\<close> either.
\<close>

lemma natural_language_repeated_query_unanswered:
  "naturalLanguageHandler [(js ''query'', QArr [a, b])] s = (Unanswered TypeError, s)"
  by (simp add: naturalLanguageHandler_def query_get_def)

subsection \<open>The create handler\<close>

text \<open>
  C1 at the JSON body \<open>null\<close>. Destructuring \<open>null\<close> throws before the first check, so a
  body with no \<open>value\<close> field is answered 500 and not 400; the collection is unchanged.
\<close>

theorem create_null_body_is_500:
  "destructure_value JNull = Inl TypeError \<and>
   finalHandler e JNull s = (Responded (Response 500 (ErrorBody ''Internal server error'')), s) \<and>
   server (e\<lparr> JSON_parse := (JSON_parse e)(js ''null'' := Some JNull) \<rparr>)
       \<lparr> req_method = ''POST'', req_pathname = js ''/strings'', req_query = q,
         req_content_type = Some (js ''application/json''), req_body_text = js ''null'' \<rparr> s
     = (Responded (Response 500 (ErrorBody ''Internal server error'')), s)"
  by (simp add: finalHandler_def internal_server_error_def server_def dispatch_def
        convertStream_def router_def js_def)

subsection \<open>The frequency map and the count of distinct characters\<close>

lemma map_of_map_set: "map_of (map_set k v m) = (map_of m)(k \<mapsto> v)"
  by (induction m) (auto simp: fun_eq_iff)

lemma map_set_fresh: "k \<notin> fst ` set m \<Longrightarrow> map_set k v m = m @ [(k, v)]"
  by (induction m) auto

lemma keys_map_set: "fst ` set (map_set k v m) = insert k (fst ` set m)"
proof (induction m)
  case Nil
  then show ?case by simp
next
  case (Cons e m)
  obtain k' v' where e: "e = (k', v')" by (cases e)
  show ?case using Cons by (auto simp: e)
qed

lemma distinct_map_set: "distinct (map fst m) \<Longrightarrow> distinct (map fst (map_set k v m))"
  by (induction m) (auto simp: keys_map_set)

lemma map_of_count_char:
  "map_of (count_char c m) = (map_of m)(c \<mapsto> (case map_of m c of None \<Rightarrow> 0 | Some n \<Rightarrow> n) + 1)"
  by (simp add: count_char_def map_get_def map_of_map_set)

lemma map_of_count_loop:
  "map_of (foldl (\<lambda>m c. count_char c m) m0 cs) k =
     (if k \<in> set cs
      then Some (count_list cs k + (case map_of m0 k of None \<Rightarrow> 0 | Some n \<Rightarrow> n))
      else map_of m0 k)"
  by (induction cs arbitrary: m0) (auto simp: map_of_count_char)

lemma distinct_count_loop:
  "distinct (map fst m0) \<Longrightarrow> distinct (map fst (foldl (\<lambda>m c. count_char c m) m0 cs))"
  by (induction cs arbitrary: m0) (auto simp: count_char_def distinct_map_set)

lemma map_of_charCounts:
  "map_of (charCounts v) k =
     (if k \<in> set (code_points (replaceAll 0x20 [] v))
      then Some (count_list (code_points (replaceAll 0x20 [] v)) k) else None)"
  by (simp add: charCounts_def map_of_count_loop)

lemma distinct_charCounts: "distinct (map fst (charCounts v))"
  by (simp add: charCounts_def distinct_count_loop)

lemma fold_map_set_distinct:
  "distinct (map fst es) \<Longrightarrow> fst ` set m0 \<inter> fst ` set es = {} \<Longrightarrow>
   foldl (\<lambda>m e. map_set (fst e) (snd e) m) m0 es = m0 @ es"
proof (induction es arbitrary: m0)
  case Nil
  then show ?case by simp
next
  case (Cons e es)
  have fresh: "fst e \<notin> fst ` set m0" using Cons.prems(2) by auto
  have step: "map_set (fst e) (snd e) m0 = m0 @ [e]"
    using map_set_fresh [OF fresh, of "snd e"] by simp
  have "foldl (\<lambda>m e. map_set (fst e) (snd e) m) (m0 @ [e]) es = (m0 @ [e]) @ es"
    using Cons.prems by (intro Cons.IH) auto
  then show ?case by (simp add: step)
qed

lemma map_of_insort_key:
  "k \<notin> fst ` set ys \<Longrightarrow> map_of (insort_key f (k, v) ys) = (map_of ys)(k \<mapsto> v)"
  by (induction ys) (auto simp: fun_eq_iff)

lemma map_of_sort_key:
  "distinct (map fst xs) \<Longrightarrow> map_of (sort_key f xs) = map_of xs"
proof (induction xs)
  case Nil
  then show ?case by simp
next
  case (Cons x xs)
  obtain k v where x: "x = (k, v)" by (cases x)
  have "k \<notin> fst ` set (sort_key f xs)" using Cons.prems x by simp
  then show ?case using Cons x by (simp add: map_of_insort_key)
qed

lemma map_of_filter_keys:
  "map_of (filter (\<lambda>e. P (fst e)) m) k = (if P k then map_of m k else None)"
  by (induction m) auto

lemma map_of_own_keys_order:
  assumes "distinct (map fst m)"
  shows "map_of (own_keys_order m) = map_of m"
proof
  fix k
  have d: "distinct (map fst (filter (\<lambda>e. is_index_key (fst e)) m))"
    using assms by (simp add: distinct_map_filter)
  show "map_of (own_keys_order m) k = map_of m k"
    by (simp add: own_keys_order_def map_add_def map_of_sort_key [OF d]
          map_of_filter_keys [where P = is_index_key]
          map_of_filter_keys [where P = "\<lambda>k. \<not> is_index_key k"] split: option.splits)
qed

lemma map_of_characterMap: "map_of (characterMap v) = map_of (charCounts v)"
  by (simp add: characterMap_def fromEntries_def fold_map_set_distinct distinct_charCounts
        map_of_own_keys_order)

lemma code_points_units: "x \<in> set (code_points s) \<Longrightarrow> set x \<subseteq> set s"
  by (induction s rule: code_points.induct) (auto split: if_splits)

lemma set_replaceAll_empty: "set (replaceAll c [] s) = set s - {c}"
  by (induction s) (auto simp: replaceAll_def)

lemma replaceAll_empty_filter: "replaceAll c [] s = filter (\<lambda>u. u \<noteq> c) s"
  by (induction s) (auto simp: replaceAll_def)

lemma space_is_code_point: "([0x20] \<in> set (code_points s)) = (0x20 \<in> set s)"
proof
  assume "[0x20] \<in> set (code_points s)"
  then show "0x20 \<in> set s" using code_points_units by fastforce
next
  assume "0x20 \<in> set s"
  then show "[0x20] \<in> set (code_points s)"
    by (induction s rule: code_points.induct)
      (auto simp: is_high_surrogate_def is_low_surrogate_def)
qed

text \<open>
  C2. For every value, the frequency map is computed over the value with its spaces
  removed: it has no key for the space, and the count of a key is the number of times
  that character occurs among the code points of the value without its spaces.
  \<open>unique_characters\<close> is the number of distinct code points of the value as it is,
  and the space is one of them whenever the value holds a space. For the value
  \<open>"a a"\<close>, \<open>unique_characters\<close> is 2 and the frequency map is \<open>{"a": 2}\<close>.
\<close>

theorem frequency_map_without_spaces:
  "map_get (characterMap v) (js '' '') = None \<and>
   map_get (characterMap v) k =
     (if k \<in> set (code_points (filter (\<lambda>c. c \<noteq> 0x20) v))
      then Some (count_list (code_points (filter (\<lambda>c. c \<noteq> 0x20) v)) k) else None) \<and>
   p_character_frequency_map (rec_properties (responseObject h v t)) = characterMap v \<and>
   p_unique_characters (rec_properties (responseObject h v t)) = card (set (code_points v)) \<and>
   (js '' '' \<in> set (code_points v)) = (0x20 \<in> set v) \<and>
   uniqueCharactersCount (js ''a a'') = 2 \<and>
   characterMap (js ''a a'') = [(js ''a'', 2)]"
proof -
  have key: "map_get (characterMap v) k =
     (if k \<in> set (code_points (filter (\<lambda>c. c \<noteq> 0x20) v))
      then Some (count_list (code_points (filter (\<lambda>c. c \<noteq> 0x20) v)) k) else None)" for k
    by (simp add: map_get_def map_of_characterMap map_of_charCounts replaceAll_empty_filter)
  have "js '' '' \<notin> set (code_points (filter (\<lambda>c. c \<noteq> 0x20) v))"
    using code_points_units [of "js '' ''" "filter (\<lambda>c. c \<noteq> 0x20) v"] by (auto simp: js_def)
  then have space: "map_get (characterMap v) (js '' '') = None"
    by (simp add: key)
  have rec: "p_character_frequency_map (rec_properties (responseObject h v t)) = characterMap v"
    "p_unique_characters (rec_properties (responseObject h v t)) = card (set (code_points v))"
    by (simp_all add: responseObject_def uniqueCharactersCount_def)
  have counted: "(js '' '' \<in> set (code_points v)) = (0x20 \<in> set v)"
    using space_is_code_point [of v] by (simp add: js_def)
  have ex1: "uniqueCharactersCount (js ''a a'') = 2"
    by (simp add: uniqueCharactersCount_def js_def is_high_surrogate_def insert_commute)
  have ex2: "characterMap (js ''a a'') = [(js ''a'', 2)]"
    by (simp add: characterMap_def charCounts_def fromEntries_def own_keys_order_def
          count_char_def map_get_def replaceAll_def js_def is_high_surrogate_def
          is_index_key_def is_digit_def)
  show ?thesis using key space rec counted ex1 ex2 by blast
qed

subsection \<open>Filters that do not parse\<close>









subsection \<open>The natural-language rules\<close>

















subsection \<open>The checks of the create handler, for a body that is not null\<close>

text \<open>
  For every body other than \<open>null\<close> the three checks run in their order and a failed
  check leaves the state as it was; a value created with 201 is refused with 409 when it
  is sent again.
\<close>

lemma destructure_value_field:
  "req_body \<noteq> JNull \<Longrightarrow>
   destructure_value req_body =
     Inr (case value_field req_body of None \<Rightarrow> Undefined | Some j \<Rightarrow> Defined j)"
  by (cases req_body) (simp_all add: value_field_def)

lemma finalHandler_missing_value:
  "req_body \<noteq> JNull \<Longrightarrow> value_field req_body = None \<Longrightarrow>
   finalHandler e req_body s =
     (Responded (Response 400 (ErrorBody ''Invalid request body or missing 'value' field'')), s)"
  by (simp add: finalHandler_def destructure_value_field)

lemma finalHandler_not_a_string:
  "value_field req_body = Some j \<Longrightarrow> (\<forall>v. j \<noteq> JStr v) \<Longrightarrow>
   finalHandler e req_body s =
     (Responded (Response 422 (ErrorBody ''Invalid data type for 'value' (must be string)'')), s)"
  by (cases req_body; cases j) (simp_all add: finalHandler_def value_field_def)

lemma finalHandler_duplicate:
  "value_field req_body = Some (JStr v) \<Longrightarrow>
   list_ex (\<lambda>el. rec_value el = v) (stringsBank s) \<Longrightarrow>
   finalHandler e req_body s =
     (Responded (Response 409 (ErrorBody ''String already exists in the system'')), s)"
  by (cases req_body) (simp_all add: finalHandler_def value_field_def)

lemma finalHandler_new_value:
  "value_field req_body = Some (JStr v) \<Longrightarrow>
   \<not> list_ex (\<lambda>el. rec_value el = v) (stringsBank s) \<Longrightarrow>
   finalHandler e req_body s = create_record e v s"
  by (cases req_body) (simp_all add: finalHandler_def value_field_def)

lemma finalHandler_twice:
  assumes "finalHandler e req_body s = (Responded (Response 201 (SuccessBody r)), s')"
  shows "finalHandler e' req_body s' =
     (Responded (Response 409 (ErrorBody ''String already exists in the system'')), s')"
proof -
  have "\<exists>v. destructure_value req_body = Inr (Defined (JStr v)) \<and> rec_value r = v \<and>
          stringsBank s' = stringsBank s @ [r]"
    using assms
    by (auto simp: finalHandler_def create_record_def Let_def internal_server_error_def
          responseObject_def
        split: sum.splits js_value.splits json.splits if_splits option.splits)
  then show ?thesis
    by (auto simp: finalHandler_def list_ex_iff)
qed

subsection \<open>Create, then read\<close>

lemma finalHandler_201:
  assumes "finalHandler e req_body s = (Responded (Response 201 (SuccessBody r)), s')"
  shows "\<exists>v h. destructure_value req_body = Inr (Defined (JStr v)) \<and>
           \<not> list_ex (\<lambda>el. rec_value el = v) (stringsBank s) \<and>
           hashString e v = Some h \<and>
           writeFile_ok e (stringsBank s @ [r]) \<and>
           r = responseObject h v (toISOString_now e) \<and>
           s' = s\<lparr> stringsBank := stringsBank s @ [r],
                   writes := writes s @ [stringsBank s @ [r]] \<rparr>"
  using assms
  by (auto simp: finalHandler_def create_record_def Let_def internal_server_error_def
      split: sum.splits js_value.splits json.splits if_splits option.splits)

lemma find_appended:
  "\<not> list_ex P xs \<Longrightarrow> P x \<Longrightarrow> find P (xs @ [x]) = Some x"
  by (induction xs) auto

lemma apply_filters_unfiltered:
  assumes "query_get q ''is_palindrome'' = None" "query_get q ''min_length'' = None"
    "query_get q ''max_length'' = None" "query_get q ''word_count'' = None"
    "query_get q ''contains_character'' = None"
  shows "apply_filters q bank = Inr (bank, no_filters_applied)"
  using assms
  by (simp add: apply_filters_def and_then_def if_is_palindrome_def if_min_length_def
        if_max_length_def if_word_count_def if_contains_character_def)

lemma handlers_round_trip:
  assumes "finalHandler e req_body s = (Responded (Response 201 (SuccessBody r)), s')"
    and "decodeURIComponent stringValue = Some (rec_value r)"
    and "query_get q ''is_palindrome'' = None" "query_get q ''min_length'' = None"
      "query_get q ''max_length'' = None" "query_get q ''word_count'' = None"
      "query_get q ''contains_character'' = None"
  shows "destructure_value req_body = Inr (Defined (JStr (rec_value r))) \<and>
         getStringHandler stringValue s' = (Responded (Response 200 (SuccessBody r)), s') \<and>
         getAllStringsHandler q s' =
           (Responded (Response 200
              (ListBody (stringsBank s') (length (stringsBank s')) no_filters_applied)), s') \<and>
         r \<in> set (stringsBank s')"
proof -
  obtain v h where body: "destructure_value req_body = Inr (Defined (JStr v))"
    and fresh: "\<not> list_ex (\<lambda>el. rec_value el = v) (stringsBank s)"
    and r: "r = responseObject h v (toISOString_now e)"
    and s': "s' = s\<lparr> stringsBank := stringsBank s @ [r],
                     writes := writes s @ [stringsBank s @ [r]] \<rparr>"
    using finalHandler_201 [OF assms(1)] by blast
  have v: "rec_value r = v" by (simp add: r responseObject_def)
  have bank: "stringsBank s' = stringsBank s @ [r]" by (simp add: s')
  have found: "find (\<lambda>el. rec_value el = rec_value r) (stringsBank s') = Some r"
    using fresh by (simp add: bank v find_appended)
  have one: "getStringHandler stringValue s' = (Responded (Response 200 (SuccessBody r)), s')"
    by (simp add: getStringHandler_def assms(2) found)
  have all: "getAllStringsHandler q s' =
       (Responded (Response 200
          (ListBody (stringsBank s') (length (stringsBank s')) no_filters_applied)), s')"
    by (simp add: getAllStringsHandler_def apply_filters_unfiltered [OF assms(3-7)])
  show ?thesis using body v one all bank by simp
qed

lemma getStringHandler_not_201:
  "getStringHandler seg s \<noteq> (Responded (Response 201 b), s')"
  by (simp add: getStringHandler_def not_found_def split: option.splits)

lemma getAllStringsHandler_not_201:
  "getAllStringsHandler q s \<noteq> (Responded (Response 201 b), s')"
  by (simp add: getAllStringsHandler_def invalid_query_def split: sum.splits prod.splits)

lemma naturalLanguageHandler_not_201:
  "naturalLanguageHandler q s \<noteq> (Responded (Response 201 b), s')"
  by (simp add: naturalLanguageHandler_def missing_query_def
      split: option.splits qvalue.splits prod.splits)

lemma deleteStringHandler_not_201:
  "deleteStringHandler e seg s \<noteq> (Responded (Response 201 b), s')"
  by (simp add: deleteStringHandler_def not_found_def internal_server_error_def Let_def
      split: option.splits)

lemma server_201_is_create:
  assumes "server e req s = (Responded (Response 201 b), s')"
  shows "\<exists>req_body. finalHandler e req_body s = (Responded (Response 201 b), s')"
proof (cases "convertStream e req")
  case (Inl resp)
  then have "resp = Response 400 (ErrorBody ''Invalid JSON format'')"
    by (auto simp: convertStream_def split: if_splits option.splits)
  then show ?thesis using assms Inl by (simp add: server_def)
next
  case (Inr req_body)
  then have d: "dispatch e req req_body s = (Responded (Response 201 b), s')"
    using assms by (simp add: server_def)
  show ?thesis
  proof (cases "router (req_pathname req) (req_method req)")
    case Create
    then show ?thesis using d by (auto simp: dispatch_def)
  next
    case ListAll
    then show ?thesis using d getAllStringsHandler_not_201 by (simp add: dispatch_def)
  next
    case NaturalLanguage
    then show ?thesis using d naturalLanguageHandler_not_201 by (simp add: dispatch_def)
  next
    case (GetOne seg)
    then show ?thesis using d getStringHandler_not_201 by (simp add: dispatch_def)
  next
    case (Delete seg)
    then show ?thesis using d deleteStringHandler_not_201 by (simp add: dispatch_def)
  next
    case NotFound
    then show ?thesis using d by (simp add: dispatch_def)
  qed
qed

text \<open>
  C7. When a request is answered 201 with a record, then in the state it leaves: a
  request the router gives to getStringHandler, with a path segment that decodes to the
  value of the record, is answered 200 with that same record, so with the same
  properties; and a request the router gives to getAllStringsHandler, with none of the
  five filter parameters, is answered 200 with the whole collection, of which the record
  is an element.
\<close>

theorem create_then_get_round_trip:
  assumes "server e post s = (Responded (Response 201 (SuccessBody r)), s')"
    and "router (req_pathname fetch) (req_method fetch) = GetOne stringParam"
    and "decodeURIComponent stringParam = Some (rec_value r)"
    and "router (req_pathname listing) (req_method listing) = ListAll"
    and "query_get (req_query listing) ''is_palindrome'' = None"
      "query_get (req_query listing) ''min_length'' = None"
      "query_get (req_query listing) ''max_length'' = None"
      "query_get (req_query listing) ''word_count'' = None"
      "query_get (req_query listing) ''contains_character'' = None"
  shows "server e1 fetch s' = (Responded (Response 200 (SuccessBody r)), s') \<and>
         server e2 listing s' =
           (Responded (Response 200
              (ListBody (stringsBank s') (length (stringsBank s')) no_filters_applied)), s') \<and>
         r \<in> set (stringsBank s')"
proof -
  obtain req_body where
    created: "finalHandler e req_body s = (Responded (Response 201 (SuccessBody r)), s')"
    using server_201_is_create [OF assms(1)] by blast
  show ?thesis
    using handlers_round_trip [OF created assms(3) assms(5-9)]
    by (simp add: server_get_one [OF assms(2)] server_list_all [OF assms(4)])
qed

theorem create_then_get_round_trip_witness:
  "server witness_env
     \<lparr> req_method = ''POST'', req_pathname = js ''/strings'', req_query = [],
       req_content_type = Some (js ''application/x-www-form-urlencoded''),
       req_body_text = js ''value=hello+world'' \<rparr>
     \<lparr> stringsBank = [], writes = [] \<rparr>
   = (Responded (Response 201 (SuccessBody
        (responseObject (js ''digest of hello world'') (js ''hello world'')
           (js ''2025-10-22T08:00:00.000Z'')))),
      \<lparr> stringsBank = [responseObject (js ''digest of hello world'') (js ''hello world'')
                         (js ''2025-10-22T08:00:00.000Z'')],
        writes = [[responseObject (js ''digest of hello world'') (js ''hello world'')
                     (js ''2025-10-22T08:00:00.000Z'')]] \<rparr>) \<and>
   router (js ''/strings/hello%20world'') ''GET'' = GetOne (js ''hello%20world'') \<and>
   decodeURIComponent (js ''hello%20world'') = Some (js ''hello world'') \<and>
   router (js ''/strings'') ''GET'' = ListAll \<and>
   server witness_env
     \<lparr> req_method = ''GET'', req_pathname = js ''/strings/hello%20world'', req_query = [],
       req_content_type = None, req_body_text = [] \<rparr>
     \<lparr> stringsBank = [responseObject (js ''digest of hello world'') (js ''hello world'')
                        (js ''2025-10-22T08:00:00.000Z'')],
       writes = [[responseObject (js ''digest of hello world'') (js ''hello world'')
                    (js ''2025-10-22T08:00:00.000Z'')]] \<rparr>
   = (Responded (Response 200 (SuccessBody
        (responseObject (js ''digest of hello world'') (js ''hello world'')
           (js ''2025-10-22T08:00:00.000Z'')))),
      \<lparr> stringsBank = [responseObject (js ''digest of hello world'') (js ''hello world'')
                         (js ''2025-10-22T08:00:00.000Z'')],
        writes = [[responseObject (js ''digest of hello world'') (js ''hello world'')
                     (js ''2025-10-22T08:00:00.000Z'')]] \<rparr>) \<and>
   server witness_env
     \<lparr> req_method = ''GET'', req_pathname = js ''/strings'', req_query = [],
       req_content_type = None, req_body_text = [] \<rparr>
     \<lparr> stringsBank = [responseObject (js ''digest of hello world'') (js ''hello world'')
                        (js ''2025-10-22T08:00:00.000Z'')],
       writes = [[responseObject (js ''digest of hello world'') (js ''hello world'')
                    (js ''2025-10-22T08:00:00.000Z'')]] \<rparr>
   = (Responded (Response 200 (ListBody
        [responseObject (js ''digest of hello world'') (js ''hello world'')
           (js ''2025-10-22T08:00:00.000Z'')] 1 no_filters_applied)),
      \<lparr> stringsBank = [responseObject (js ''digest of hello world'') (js ''hello world'')
                         (js ''2025-10-22T08:00:00.000Z'')],
        writes = [[responseObject (js ''digest of hello world'') (js ''hello world'')
                     (js ''2025-10-22T08:00:00.000Z'')]] \<rparr>)"
proof -
  let ?r = "responseObject (js ''digest of hello world'') (js ''hello world'')
              (js ''2025-10-22T08:00:00.000Z'')"
  let ?s' = "\<lparr> stringsBank = [?r], writes = [[?r]] \<rparr>"
  let ?post = "\<lparr> req_method = ''POST'', req_pathname = js ''/strings'', req_query = [],
       req_content_type = Some (js ''application/x-www-form-urlencoded''),
       req_body_text = js ''value=hello+world'' \<rparr>"
  let ?fetch = "\<lparr> req_method = ''GET'', req_pathname = js ''/strings/hello%20world'',
       req_query = [], req_content_type = None, req_body_text = [] \<rparr>"
  let ?listing = "\<lparr> req_method = ''GET'', req_pathname = js ''/strings'', req_query = [],
       req_content_type = None, req_body_text = [] \<rparr>"
  have body: "convertStream witness_env ?post = Inr (JObj [(js ''value'', JStr (js ''hello world''))])"
    by (simp add: convertStream_def witness_env_def fromEntries_def own_keys_order_def
          is_index_key_def is_digit_def js_def)
  have created: "server witness_env ?post \<lparr> stringsBank = [], writes = [] \<rparr>
     = (Responded (Response 201 (SuccessBody ?r)), ?s')"
    by (simp add: server_def body dispatch_def router_def finalHandler_def create_record_def
          Let_def)
      (simp add: witness_env_def js_def Let_def)
  have route1: "router (req_pathname ?fetch) (req_method ?fetch) = GetOne (js ''hello%20world'')"
    by (simp add: router_def js_def)
  have decoded: "decodeURIComponent (js ''hello%20world'') = Some (rec_value ?r)"
    by (simp add: responseObject_def js_def hex_digit_def leading_ones_def)
  have route2: "router (req_pathname ?listing) (req_method ?listing) = ListAll"
    by (simp add: router_def)
  show ?thesis
    using created route1 decoded route2
      create_then_get_round_trip [OF created route1 decoded route2,
        of witness_env witness_env]
    by (simp add: query_get_def responseObject_def)
qed


end
